theory Spec2Isabelle
  imports Main
begin

section \<open>JavaScript string primitives used by the server\<close>

text \<open>
  A JavaScript string is modelled as a \<^typ>\<open>string\<close>, one \<^typ>\<open>char\<close> per code unit;
  code units above 255 are outside the model. The functions below are the methods of
  \<^verbatim>\<open>String.prototype\<close> that the sources call: \<^verbatim>\<open>startsWith\<close>, \<^verbatim>\<open>includes\<close>,
  \<^verbatim>\<open>endsWith\<close>, \<^verbatim>\<open>split\<close> with a one-character separator, and \<^verbatim>\<open>trim\<close>.
\<close>

fun startsWith :: "string \<Rightarrow> string \<Rightarrow> bool" where
  "startsWith s [] = True"
| "startsWith [] (p # ps) = False"
| "startsWith (c # cs) (p # ps) = (c = p \<and> startsWith cs ps)"

fun includesStr :: "string \<Rightarrow> string \<Rightarrow> bool" where
  "includesStr [] sub = (sub = [])"
| "includesStr (c # cs) sub = (startsWith (c # cs) sub \<or> includesStr cs sub)"

definition endsWith :: "string \<Rightarrow> string \<Rightarrow> bool" where
  "endsWith s suf = startsWith (rev s) (rev suf)"

text \<open>\<^verbatim>\<open>s.split(sep)\<close> for a separator of one character: the empty string gives one empty piece.\<close>

fun split_on :: "char \<Rightarrow> string \<Rightarrow> string list" where
  "split_on sep [] = [[]]"
| "split_on sep (c # cs) =
     (if c = sep then [] # split_on sep cs
      else (case split_on sep cs of
              [] \<Rightarrow> [[c]]
            | w # ws \<Rightarrow> (c # w) # ws))"

text \<open>
  The white space and line terminators that \<^verbatim>\<open>trim\<close> removes, among the code units below
  256: tab, line feed, vertical tab, form feed, carriage return, space and no-break space.
\<close>

definition isWhiteSpace :: "char \<Rightarrow> bool" where
  "isWhiteSpace c =
     (c = CHR 0x09 \<or> c = CHR 0x0A \<or> c = CHR 0x0B \<or> c = CHR 0x0C \<or> c = CHR 0x0D
      \<or> c = CHR 0x20 \<or> c = CHR 0xA0)"

definition trimStart :: "string \<Rightarrow> string" where
  "trimStart s = dropWhile isWhiteSpace s"

definition trimEnd :: "string \<Rightarrow> string" where
  "trimEnd s = rev (dropWhile isWhiteSpace (rev s))"

definition trim :: "string \<Rightarrow> string" where
  "trim s = trimEnd (trimStart s)"

text \<open>\<^verbatim>\<open>pieces.join(sep)\<close>, the inverse of \<^const>\<open>split_on\<close>; used in statements only.\<close>

fun join_with :: "char \<Rightarrow> string list \<Rightarrow> string" where
  "join_with sep [] = []"
| "join_with sep [p] = p"
| "join_with sep (p # q # ps) = p @ sep # join_with sep (q # ps)"

section \<open>Provider list resolver\<close>

text \<open>
  \<^verbatim>\<open>DEFAULT_PROVIDERS\<close> and \<^verbatim>\<open>getProviderUrls\<close> of the clients module. The environment
  variable \<^verbatim>\<open>PROVIDER_URL\<close> is the argument: \<^term>\<open>None\<close> when it is unset, and a set but
  empty value is falsy as in JavaScript.
\<close>

definition DEFAULT_PROVIDERS :: "string list" where
  "DEFAULT_PROVIDERS =
     [''https://eth.drpc.org'',
      ''https://eth.llamarpc.com'',
      ''https://ethereum.publicnode.com'',
      ''https://rpc.ankr.com/eth'']"

definition truthy :: "string option \<Rightarrow> bool" where
  "truthy v = (case v of None \<Rightarrow> False | Some s \<Rightarrow> s \<noteq> [])"

text \<open>The text of an optional string where it is present, and the items of an optional
  array; both are read only where the value was found truthy or not null.\<close>

definition text_of :: "string option \<Rightarrow> string" where
  "text_of v = (case v of None \<Rightarrow> [] | Some s \<Rightarrow> s)"

definition items_of :: "'a list option \<Rightarrow> 'a list" where
  "items_of v = (case v of None \<Rightarrow> [] | Some xs \<Rightarrow> xs)"

definition getProviderUrls :: "string option \<Rightarrow> string list" where
  "getProviderUrls env =
     (case env of
        None \<Rightarrow> DEFAULT_PROVIDERS
      | Some envProvider \<Rightarrow>
          if truthy env \<and> includesStr envProvider '',''
          then map trim (split_on CHR '','' envProvider)
          else if truthy env
          then envProvider # filter (\<lambda>url. url \<noteq> envProvider) DEFAULT_PROVIDERS
          else DEFAULT_PROVIDERS)"

section \<open>Rotating client factory\<close>

text \<open>
  A value that JavaScript code throws: an instance of \<^verbatim>\<open>Error\<close> with its \<^verbatim>\<open>name\<close> and
  \<^verbatim>\<open>message\<close>; any other value that \<^verbatim>\<open>String(value)\<close> converts, carried by the text of
  the conversion; or a value that is not an \<^verbatim>\<open>Error\<close> and on which \<^verbatim>\<open>String(value)\<close> itself
  throws, carried by what the conversion throws (for \<^verbatim>\<open>Object.create(null)\<close> a
  \<^verbatim>\<open>TypeError\<close>).
\<close>

datatype js_thrown =
    Thrown_Error string string
  | Thrown_Other string
  | Thrown_Unconvertible js_thrown

text \<open>\<^verbatim>\<open>error instanceof Error\<close>, and \<^verbatim>\<open>String(error)\<close>, which returns a text or throws (for
  an \<^verbatim>\<open>Error\<close> it is the result of \<^verbatim>\<open>Error.prototype.toString\<close>).\<close>

fun instanceof_Error :: "js_thrown \<Rightarrow> bool" where
  "instanceof_Error (Thrown_Error n m) = True"
| "instanceof_Error (Thrown_Other s) = False"
| "instanceof_Error (Thrown_Unconvertible e) = False"

fun js_String :: "js_thrown \<Rightarrow> js_thrown + string" where
  "js_String (Thrown_Error n m) =
     Inr (if n = [] then m else if m = [] then n else n @ '': '' @ m)"
| "js_String (Thrown_Other s) = Inr s"
| "js_String (Thrown_Unconvertible e) = Inl e"

fun message_of :: "js_thrown \<Rightarrow> string" where
  "message_of (Thrown_Error n m) = m"
| "message_of (Thrown_Other s) = []"
| "message_of (Thrown_Unconvertible e) = []"

text \<open>
  The argument of \<^verbatim>\<open>JustaName.init\<close>: one network with its chain id and provider URL.
  \<^verbatim>\<open>providerUrls[i]\<close> is \<^verbatim>\<open>undefined\<close> outside the array, here \<^term>\<open>None\<close>.
\<close>

record network =
  chainId :: int
  providerUrl :: "string option"

definition js_index :: "'a list \<Rightarrow> int \<Rightarrow> 'a option" where
  "js_index xs i = (if 0 \<le> i \<and> i < int (length xs) then Some (xs ! nat i) else None)"

text \<open>
  \<^verbatim>\<open>createJustaNameClient\<close>: the closure keeps \<^verbatim>\<open>providerUrls\<close> and the variable
  \<^verbatim>\<open>client\<close>; the object it returns carries the first client and \<^verbatim>\<open>retry\<close>. The SDK's
  \<^verbatim>\<open>JustaName.init\<close> is the parameter \<open>init\<close>, and a client is whatever it builds.
  \<^verbatim>\<open>retry\<close> returns a rejected promise (\<^term>\<open>Inl\<close>) or the new client, and the closure
  after the call; its parameter defaults to 0 when the caller passes none.
\<close>

record 'c factory =
  providerUrls :: "string list"
  client :: 'c

definition createJustaNameClient ::
  "(network list \<Rightarrow> 'c) \<Rightarrow> string option \<Rightarrow> 'c \<times> 'c factory" where
  "createJustaNameClient init env =
     (let urls = getProviderUrls env;
          c = init [\<lparr>chainId = 1, providerUrl = js_index urls 0\<rparr>]
      in (c, \<lparr>providerUrls = urls, client = c\<rparr>))"

definition retry ::
  "(network list \<Rightarrow> 'c) \<Rightarrow> 'c factory \<Rightarrow> int option \<Rightarrow> (js_thrown + 'c) \<times> 'c factory"
  where
  "retry init st arg =
     (let currentIndex = (case arg of None \<Rightarrow> 0 | Some i \<Rightarrow> i)
      in if currentIndex \<ge> int (length (providerUrls st)) - 1
         then (Inl (Thrown_Error ''Error'' ''All providers failed''), st)
         else (let c = init [\<lparr>chainId = 1,
                                providerUrl = js_index (providerUrls st) (currentIndex + 1)\<rparr>]
               in (Inr c, st\<lparr>client := c\<rparr>)))"

section \<open>Error classifier\<close>

text \<open>\<^verbatim>\<open>normalizeName\<close> and \<^verbatim>\<open>handleEnsError\<close> of the utils module. The call of
  \<^verbatim>\<open>console.error\<close> writes to the log and is left out. \<^verbatim>\<open>handleEnsError\<close> returns its
  message (\<^term>\<open>Inr\<close>) or throws (\<^term>\<open>Inl\<close>): in its last line \<^verbatim>\<open>String(error)\<close> is
  evaluated when \<^verbatim>\<open>errorMessage\<close> is empty, and what it throws leaves the function.\<close>

definition normalizeName :: "string \<Rightarrow> string" where
  "normalizeName name = (if endsWith name ''.eth'' then name else name @ ''.eth'')"

definition handleEnsError :: "js_thrown \<Rightarrow> string \<Rightarrow> js_thrown + string" where
  "handleEnsError error operation =
     (let errorMessage = (if instanceof_Error error then message_of error else [])
      in if instanceof_Error error \<and>
            (includesStr errorMessage ''fetch failed'' \<or>
             includesStr errorMessage ''timeout'' \<or>
             includesStr errorMessage ''network'' \<or>
             includesStr errorMessage ''HTTP request failed'')
         then Inr (''Network error while accessing Ethereum providers. Please check your internet connection or try again later. Technical details: '' @ errorMessage)
         else if instanceof_Error error \<and> includesStr errorMessage ''ENS''
         then Inr (''ENS error: '' @ errorMessage)
         else if instanceof_Error error \<and>
                 (includesStr errorMessage ''invalid'' \<or> includesStr errorMessage ''parameter'')
         then Inr (''Invalid input: '' @ errorMessage)
         else if errorMessage \<noteq> []
         then Inr (''Error during '' @ operation @ '': '' @ errorMessage)
         else (case js_String error of
                 Inl thrown \<Rightarrow> Inl thrown
               | Inr str \<Rightarrow> Inr (''Error during '' @ operation @ '': '' @ str)))"

section \<open>Response envelope and upstream calls\<close>

record TextContent =
  tc_type :: string
  tc_text :: string

record ServerResponse =
  content :: "TextContent list"
  isError :: bool

definition textResponse :: "string \<Rightarrow> bool \<Rightarrow> ServerResponse" where
  "textResponse txt err = \<lparr>content = [\<lparr>tc_type = ''text'', tc_text = txt\<rparr>], isError = err\<rparr>"

text \<open>
  The payloads of the upstream clients, with the fields the handlers read. A field that a
  handler only interpolates into a template is the text of that interpolation; a number is
  an \<^typ>\<open>int\<close>, a date the milliseconds of its epoch time, an optional field an option.
\<close>

record address_record =
  ar_id :: int
  ar_name :: string
  ar_value :: string

record name_record =
  nr_name :: string
  nr_match :: bool

record owner_record =
  ow_owner :: string
  ow_registrant :: "string option"
  ow_ownershipLevel :: string

record expiry_record =
  ex_date :: int
  ex_gracePeriod :: int
  ex_status :: string

record text_entry =
  te_key :: string
  te_value :: string

record coin_entry =
  ce_id :: int
  ce_name :: string
  ce_value :: string

record content_hash =
  ch_decoded :: string
  ch_protocolType :: string

record ens_records =
  rc_resolverAddress :: string
  rc_texts :: "text_entry list option"
  rc_coins :: "coin_entry list option"
  rc_contentHash :: "content_hash option"

record subname =
  sn_name :: string
  sn_owner :: "string option"

record domain_event =
  dv_type :: string
  dv_blockNumber :: int
  dv_owner :: string
  dv_resolver :: string

record registration_event =
  rg_type :: string
  rg_blockNumber :: int
  rg_registrant :: string
  rg_expiryDate :: int

record resolver_event =
  rs_type :: string
  rs_blockNumber :: int
  rs_addr :: string
  rs_key :: string
  rs_value :: "string option"

record name_history =
  domainEvents :: "domain_event list"
  registrationEvents :: "registration_event list option"
  resolverEvents :: "resolver_event list option"

record price =
  base :: int
  premium :: int

text \<open>
  The upstream clients as oracles: \<open>pc_\<close> fields are the methods of \<^verbatim>\<open>publicClient\<close>,
  \<open>jn_getRecords\<close> is \<^verbatim>\<open>justaname.subnames.getRecords\<close> followed by \<^verbatim>\<open>.records\<close>. A call
  throws (\<^term>\<open>Inl\<close>) or returns its payload, \<^term>\<open>None\<close> for \<^verbatim>\<open>null\<close>.
\<close>

record 'n upstream =
  pc_getAddressRecord :: "string \<Rightarrow> string \<Rightarrow> js_thrown + address_record option"
  pc_getName :: "string \<Rightarrow> js_thrown + name_record option"
  pc_getTextRecord :: "string \<Rightarrow> string \<Rightarrow> js_thrown + string option"
  pc_getAvailable :: "string \<Rightarrow> js_thrown + bool"
  pc_getOwner :: "string \<Rightarrow> js_thrown + owner_record option"
  pc_getExpiry :: "string \<Rightarrow> js_thrown + expiry_record option"
  pc_getSubnames :: "string \<Rightarrow> js_thrown + subname list option"
  pc_getNameHistory :: "string \<Rightarrow> js_thrown + name_history option"
  pc_getPrice :: "string \<Rightarrow> 'n \<Rightarrow> js_thrown + price"
  jn_getRecords :: "string \<Rightarrow> js_thrown + ens_records"

text \<open>
  What the handlers take from the runtime and from \<^verbatim>\<open>ethers\<close>: the address check, the
  formatting of wei as ether, and the texts of numbers, quotients and local dates, the
  last also for a date given as the seconds of an event's \<^verbatim>\<open>expiryDate\<close>
  (\<^verbatim>\<open>new Date(Number(expiryDate) * 1000).toLocaleString()\<close>). The
  \<^verbatim>\<open>duration\<close> of a price request is a number of the caller's, of a type \<open>'n\<close> that the
  model leaves open: the runtime gives the number of a literal, the product of two numbers
  (rounded as the runtime rounds it) and the text of a number in a template.
\<close>

record 'n runtime =
  ethers_isAddress :: "string \<Rightarrow> bool"
  ethers_formatEther :: "int \<Rightarrow> string"
  numberToString :: "int \<Rightarrow> string"
  quotientToString :: "int \<Rightarrow> int \<Rightarrow> string"
  dateToLocaleString :: "int \<Rightarrow> string"
  secondsToLocaleString :: "int \<Rightarrow> string"
  number_literal :: "int \<Rightarrow> 'n"
  number_times :: "'n \<Rightarrow> 'n \<Rightarrow> 'n"
  number_text :: "'n \<Rightarrow> string"

text \<open>
  A run of an asynchronous function: the upstream calls it made, each with its outcome, and
  its result, a rejection (\<^term>\<open>Inl\<close>) or a value.
\<close>

datatype 'n upcall =
    Call_getAddressRecord string string
  | Call_getName string
  | Call_getTextRecord string string
  | Call_getAvailable string
  | Call_getOwner string
  | Call_getExpiry string
  | Call_getSubnames string
  | Call_getNameHistory string
  | Call_getPrice string 'n
  | Call_getRecords string

datatype outcome = Returned | Threw js_thrown

type_synonym ('n, 'a) run = "('n upcall \<times> outcome) list \<times> (js_thrown + 'a)"

definition ret :: "'a \<Rightarrow> ('n, 'a) run" where
  "ret v = ([], Inr v)"

text \<open>A step that makes no upstream call and returns or throws.\<close>

definition compute :: "js_thrown + 'a \<Rightarrow> ('n, 'a) run" where
  "compute r = ([], r)"

definition await :: "'n upcall \<Rightarrow> js_thrown + 'a \<Rightarrow> ('n, 'a) run" where
  "await c r = ([(c, case r of Inl e \<Rightarrow> Threw e | Inr v \<Rightarrow> Returned)], r)"

definition andThen :: "('n, 'a) run \<Rightarrow> ('a \<Rightarrow> ('n, 'b) run) \<Rightarrow> ('n, 'b) run" where
  "andThen m f =
     (case m of
        (tr, Inl e) \<Rightarrow> (tr, Inl e)
      | (tr, Inr v) \<Rightarrow> (case f v of (tr', r) \<Rightarrow> (tr @ tr', r)))"

definition try_catch ::
  "('n, 'a) run \<Rightarrow> (js_thrown \<Rightarrow> ('n, 'a) run) \<Rightarrow> ('n, 'a) run" where
  "try_catch body handler =
     (case body of
        (tr, Inl e) \<Rightarrow> (case handler e of (tr', r) \<Rightarrow> (tr @ tr', r))
      | (tr, Inr v) \<Rightarrow> (tr, Inr v))"

section \<open>Operation handlers\<close>

text \<open>
  The eight handlers of the utils module. Each \<^verbatim>\<open>try\<close> block is the first argument of
  \<^const>\<open>try_catch\<close> and each \<^verbatim>\<open>catch\<close> block the second; \<^verbatim>\<open>normalizeName\<close> is
  called before the \<^verbatim>\<open>try\<close>, as in the source. A loop that appends to \<^verbatim>\<open>output\<close> is a
  \<^const>\<open>foldl\<close> over the array.
\<close>

definition resolveName :: "'n upstream \<Rightarrow> string \<Rightarrow> ('n, ServerResponse) run" where
  "resolveName up name =
     (let normalizedName = normalizeName name
      in try_catch
           (andThen (await (Call_getAddressRecord normalizedName ''ETH'')
                           (pc_getAddressRecord up normalizedName ''ETH''))
              (\<lambda>result.
                 case result of
                   None \<Rightarrow>
                     ret (textResponse
                            (''Could not resolve '' @ normalizedName @ '' to an address.'') False)
                 | Some r \<Rightarrow>
                     ret (textResponse
                            (''The address for '' @ normalizedName @ '' is '' @ ar_value r) False)))
           (\<lambda>error.
              andThen (compute (handleEnsError error ''name resolution''))
                (\<lambda>errorMessage. ret (textResponse errorMessage True))))"

definition reverseLookup :: "'n runtime \<Rightarrow> 'n upstream \<Rightarrow> string \<Rightarrow> ('n, ServerResponse) run" where
  "reverseLookup rt up address =
     try_catch
       (if \<not> ethers_isAddress rt address
        then ret (textResponse (''Invalid Ethereum address: '' @ address) True)
        else andThen (await (Call_getName address) (pc_getName up address))
               (\<lambda>result.
                  case result of
                    None \<Rightarrow>
                      ret (textResponse (''No ENS name found for address '' @ address) False)
                  | Some r \<Rightarrow>
                      ret (textResponse
                             (''The ENS name for '' @ address @ '' is '' @ nr_name r @
                              (if \<not> nr_match r
                               then '' (Note: forward resolution does not match this address)''
                               else []))
                             False)))
       (\<lambda>error.
          andThen (compute (handleEnsError error ''reverse lookup''))
            (\<lambda>errorMessage. ret (textResponse errorMessage True)))"

definition getTextRecord :: "'n upstream \<Rightarrow> string \<Rightarrow> string \<Rightarrow> ('n, ServerResponse) run" where
  "getTextRecord up name key =
     (let normalizedName = normalizeName name
      in try_catch
           (andThen (await (Call_getTextRecord normalizedName key)
                           (pc_getTextRecord up normalizedName key))
              (\<lambda>v.
                 if \<not> truthy v
                 then ret (textResponse
                             (''No '' @ [CHR 0x27] @ key @ [CHR 0x27] @ '' record found for '' @
                              normalizedName) False)
                 else ret (textResponse
                             (''The '' @ [CHR 0x27] @ key @ [CHR 0x27] @ '' record for '' @
                              normalizedName @ '' is: '' @ text_of v) False)))
           (\<lambda>error.
              andThen (compute (handleEnsError error ''getting records''))
                (\<lambda>errorMessage. ret (textResponse errorMessage True))))"

definition checkAvailability :: "'n upstream \<Rightarrow> string \<Rightarrow> ('n, ServerResponse) run" where
  "checkAvailability up name =
     (let normalizedName = normalizeName name
      in try_catch
           (andThen (await (Call_getAvailable normalizedName) (pc_getAvailable up normalizedName))
              (\<lambda>available.
                 if available
                 then ret (textResponse
                             (''The name '' @ normalizedName @ '' is available for registration.'')
                             False)
                 else andThen (await (Call_getOwner normalizedName) (pc_getOwner up normalizedName))
                        (\<lambda>owner.
                           ret (textResponse
                                  (''The name '' @ normalizedName @ '' is already registered. '' @
                                   (case owner of
                                      Some ow \<Rightarrow> ''Current owner: '' @ ow_owner ow
                                    | None \<Rightarrow> []))
                                  False))))
           (\<lambda>error.
              andThen (compute (handleEnsError error ''name availability check''))
                (\<lambda>errorMessage. ret (textResponse errorMessage True))))"

definition recordsOutput :: "'n runtime \<Rightarrow> string \<Rightarrow> ens_records \<Rightarrow> string" where
  "recordsOutput rt normalizedName records =
     (let output = ''Information for '' @ normalizedName @ '':\<newline>\<newline>'';
          output = output @ ''Resolver Address: '' @ rc_resolverAddress records @ ''\<newline>'';
          output =
            (case rc_texts records of
               None \<Rightarrow> output @ ''\<newline>No text records found.''
             | Some texts \<Rightarrow>
                 if length texts > 0
                 then foldl (\<lambda>out r. out @ ''- '' @ te_key r @ '': '' @ te_value r @ ''\<newline>'')
                        (output @ ''\<newline>Text Records:\<newline>'') texts
                 else output @ ''\<newline>No text records found.'');
          output =
            (case rc_coins records of
               None \<Rightarrow> output @ ''\<newline>No cryptocurrency addresses found.''
             | Some coins \<Rightarrow>
                 if length coins > 0
                 then foldl (\<lambda>out coin. out @ ''- '' @ ce_name coin @ '' ('' @
                                         numberToString rt (ce_id coin) @ ''): '' @
                                         ce_value coin @ ''\<newline>'')
                        (output @ ''\<newline>Addresses:\<newline>'') coins
                 else output @ ''\<newline>No cryptocurrency addresses found.'')
      in (case rc_contentHash records of
            None \<Rightarrow> output
          | Some h \<Rightarrow> output @ ''\<newline>Content Hash: '' @ ch_decoded h @ '' (Protocol: '' @
                        ch_protocolType h @ '')''))"

definition ownerOutput :: "string \<Rightarrow> owner_record option \<Rightarrow> string" where
  "ownerOutput output owner =
     (case owner of
        None \<Rightarrow> output
      | Some ow \<Rightarrow>
          (let output = output @ ''\<newline>\<newline>Ownership Information:'';
               output = output @ ''\<newline>- Owner: '' @ ow_owner ow;
               output = (if truthy (ow_registrant ow)
                         then output @ ''\<newline>- Registrant: '' @ text_of (ow_registrant ow)
                         else output)
           in output @ ''\<newline>- Level: '' @ ow_ownershipLevel ow))"

definition expiryOutput :: "'n runtime \<Rightarrow> string \<Rightarrow> expiry_record option \<Rightarrow> string" where
  "expiryOutput rt output expiry =
     (case expiry of
        None \<Rightarrow> output
      | Some ex \<Rightarrow>
          (let output = output @ ''\<newline>\<newline>Expiration Information:'';
               output = output @ ''\<newline>- Expires: '' @ dateToLocaleString rt (ex_date ex);
               output = output @ ''\<newline>- Status: '' @ ex_status ex
           in if ex_status ex = ''gracePeriod''
              then output @ ''\<newline>- Grace Period: '' @
                     quotientToString rt (ex_gracePeriod ex) 86400 @ '' days''
              else output))"

definition getAllRecords :: "'n runtime \<Rightarrow> 'n upstream \<Rightarrow> string \<Rightarrow> ('n, ServerResponse) run" where
  "getAllRecords rt up name =
     (let normalizedName = normalizeName name
      in try_catch
           (andThen (await (Call_getRecords normalizedName) (jn_getRecords up normalizedName))
              (\<lambda>records.
                 let output = recordsOutput rt normalizedName records
                 in andThen (await (Call_getOwner normalizedName) (pc_getOwner up normalizedName))
                      (\<lambda>owner.
                         let output = ownerOutput output owner
                         in andThen (await (Call_getExpiry name) (pc_getExpiry up name))
                              (\<lambda>expiry.
                                 let output = expiryOutput rt output expiry
                                 in ret (textResponse output False)))))
           (\<lambda>error.
              andThen (compute (handleEnsError error ''ens information''))
                (\<lambda>errorMessage. ret (textResponse errorMessage True))))"

definition getSubdomains :: "'n upstream \<Rightarrow> string \<Rightarrow> ('n, ServerResponse) run" where
  "getSubdomains up name =
     (let normalizedName = normalizeName name
      in try_catch
           (andThen (await (Call_getSubnames normalizedName) (pc_getSubnames up normalizedName))
              (\<lambda>subdomains.
                 if subdomains = None \<or> length (items_of subdomains) = 0
                 then ret (textResponse (''No subdomains found for '' @ name) False)
                 else
                   (let output = ''Subdomains for '' @ name @ '':\<newline>\<newline>'';
                        output =
                          foldl (\<lambda>out subdomain.
                                   (let out = out @ ''- '' @ sn_name subdomain;
                                        out = (if truthy (sn_owner subdomain)
                                               then out @ '' (Owner: '' @ text_of (sn_owner subdomain) @ '')''
                                               else out)
                                    in out @ ''\<newline>''))
                            output (items_of subdomains)
                    in ret (textResponse output False))))
           (\<lambda>error.
              andThen (compute (handleEnsError error ''getting subdomains''))
                (\<lambda>errorMessage. ret (textResponse errorMessage True))))"

definition domainEventOutput :: "'n runtime \<Rightarrow> string \<Rightarrow> domain_event \<Rightarrow> string" where
  "domainEventOutput rt output event =
     (let output = output @ ''- '' @ dv_type event @ '' at block '' @
                     numberToString rt (dv_blockNumber event) @ ''\<newline>''
      in if dv_type event = ''Transfer'' \<or> dv_type event = ''NewOwner''
         then output @ ''  New owner: '' @ dv_owner event @ ''\<newline>''
         else if dv_type event = ''NewResolver''
         then output @ ''  New resolver: '' @ dv_resolver event @ ''\<newline>''
         else output)"

definition registrationEventOutput :: "'n runtime \<Rightarrow> string \<Rightarrow> registration_event \<Rightarrow> string" where
  "registrationEventOutput rt output event =
     (let output = output @ ''- '' @ rg_type event @ '' at block '' @
                     numberToString rt (rg_blockNumber event) @ ''\<newline>''
      in if rg_type event = ''NameRegistered''
         then (let output = output @ ''  Registrant: '' @ rg_registrant event @ ''\<newline>''
               in output @ ''  Expiry Date: '' @
                    secondsToLocaleString rt (rg_expiryDate event) @ ''\<newline>'')
         else if rg_type event = ''NameRenewed''
         then output @ ''  New Expiry Date: '' @
                secondsToLocaleString rt (rg_expiryDate event) @ ''\<newline>''
         else output)"

definition resolverEventOutput :: "'n runtime \<Rightarrow> string \<Rightarrow> resolver_event \<Rightarrow> string" where
  "resolverEventOutput rt output event =
     (let output = output @ ''- '' @ rs_type event @ '' at block '' @
                     numberToString rt (rs_blockNumber event) @ ''\<newline>''
      in if rs_type event = ''AddrChanged''
         then output @ ''  New address: '' @ rs_addr event @ ''\<newline>''
         else if rs_type event = ''TextChanged''
         then (let output = output @ ''  Key: '' @ rs_key event @ ''\<newline>''
               in if truthy (rs_value event)
                  then output @ ''  Value: '' @ text_of (rs_value event) @ ''\<newline>''
                  else output)
         else output)"

definition historyOutput :: "'n runtime \<Rightarrow> string \<Rightarrow> name_history \<Rightarrow> string" where
  "historyOutput rt name history =
     (let output = ''History for '' @ name @ '':\<newline>\<newline>'';
          output =
            (if length (domainEvents history) > 0
             then foldl (domainEventOutput rt) (output @ ''Domain Events:\<newline>'')
                    (domainEvents history)
             else output);
          output =
            (case registrationEvents history of
               None \<Rightarrow> output
             | Some events \<Rightarrow>
                 if length events > 0
                 then foldl (registrationEventOutput rt)
                        (output @ ''\<newline>Registration Events:\<newline>'') events
                 else output)
      in (case resolverEvents history of
            None \<Rightarrow> output
          | Some events \<Rightarrow>
              if length events > 0
              then foldl (resolverEventOutput rt)
                     (output @ ''\<newline>Resolver Events:\<newline>'') events
              else output))"

definition getNameHistory :: "'n runtime \<Rightarrow> 'n upstream \<Rightarrow> string \<Rightarrow> ('n, ServerResponse) run" where
  "getNameHistory rt up name =
     (let normalizedName = normalizeName name
      in try_catch
           (andThen (await (Call_getNameHistory normalizedName)
                           (pc_getNameHistory up normalizedName))
              (\<lambda>history.
                 case history of
                   None \<Rightarrow> ret (textResponse (''No history found for '' @ name) False)
                 | Some h \<Rightarrow> ret (textResponse (historyOutput rt name h) False)))
           (\<lambda>error.
              andThen (compute (handleEnsError error ''get name history''))
                (\<lambda>errorMessage. ret (textResponse errorMessage True))))"

text \<open>\<^verbatim>\<open>duration\<close> is optional and defaults to 1; the seconds are the product
  \<^verbatim>\<open>duration * 365 * 24 * 60 * 60\<close>, taken from the left by the runtime.\<close>

definition getRegistrationPrice ::
  "'n runtime \<Rightarrow> 'n upstream \<Rightarrow> string \<Rightarrow> 'n option \<Rightarrow> ('n, ServerResponse) run" where
  "getRegistrationPrice rt up name duration_opt =
     (let duration = (case duration_opt of None \<Rightarrow> number_literal rt 1 | Some d \<Rightarrow> d);
          normalizedName = normalizeName name
      in try_catch
           (let durationInSeconds =
                  number_times rt
                    (number_times rt
                       (number_times rt
                          (number_times rt duration (number_literal rt 365))
                          (number_literal rt 24))
                       (number_literal rt 60))
                    (number_literal rt 60)
            in andThen (await (Call_getPrice normalizedName durationInSeconds)
                              (pc_getPrice up normalizedName durationInSeconds))
                 (\<lambda>price.
                    ret (textResponse
                           (''Registration price for '' @ normalizedName @ '' for '' @
                              number_text rt duration @ '' year(s):\<newline>'' @
                            ''- Base Price: '' @ ethers_formatEther rt (base price) @ '' ETH\<newline>'' @
                            ''- Premium: '' @ ethers_formatEther rt (premium price) @ '' ETH\<newline>'' @
                            ''- Total: '' @ ethers_formatEther rt (base price + premium price) @
                              '' ETH'')
                           False)))
           (\<lambda>error.
              andThen (compute (handleEnsError error ''get registration price''))
                (\<lambda>errorMessage. ret (textResponse errorMessage True))))"

text \<open>
  The tools registered on the server: a request names the tool and carries its
  parameters, and \<open>server_tool\<close> is the callback registered for it. \<open>operationLabel\<close>
  is the label that the tool's handler passes to \<^const>\<open>handleEnsError\<close>.
\<close>

datatype 'n request =
    Tool_resolve_name string
  | Tool_reverse_lookup string
  | Tool_get_text_record string string
  | Tool_check_availability string
  | Tool_get_all_records string
  | Tool_get_subdomains string
  | Tool_get_name_history string
  | Tool_get_registration_price string "'n option"



section \<open>Notions used in the statements\<close>

text \<open>
  \<open>spec_contains\<close> is "the message contains the text" as the specification words it;
  \<^const>\<open>includesStr\<close> is the method the code calls, and the two are shown to agree.
\<close>

definition spec_contains :: "string \<Rightarrow> string \<Rightarrow> bool" where
  "spec_contains s sub = (\<exists>p q. s = p @ sub @ q)"

text \<open>The upstream calls of a run in the order they were made, and the name (or address) that
  a call hands to the upstream client.\<close>

definition calls :: "('n, 'a) run \<Rightarrow> 'n upcall list" where
  "calls m = map fst (fst m)"

fun upcall_name :: "'n upcall \<Rightarrow> string" where
  "upcall_name (Call_getAddressRecord name coin) = name"
| "upcall_name (Call_getName address) = address"
| "upcall_name (Call_getTextRecord name key) = name"
| "upcall_name (Call_getAvailable name) = name"
| "upcall_name (Call_getOwner name) = name"
| "upcall_name (Call_getExpiry name) = name"
| "upcall_name (Call_getSubnames name) = name"
| "upcall_name (Call_getNameHistory name) = name"
| "upcall_name (Call_getPrice name duration) = name"
| "upcall_name (Call_getRecords name) = name"

text \<open>\<^verbatim>\<open>String(error)\<close> returns a text for the thrown value.\<close>

definition stringifiable :: "js_thrown \<Rightarrow> bool" where
  "stringifiable e = (case js_String e of Inl thrown \<Rightarrow> False | Inr str \<Rightarrow> True)"


text \<open>
  Concrete surroundings for the examples: a runtime whose address check asks for the
  \<^verbatim>\<open>0x\<close> prefix and 42 characters and whose numbers are integers, an upstream that
  answers every call (the address record is the parameter), an upstream whose every call
  throws the given value, and the \<^verbatim>\<open>TypeError\<close> that \<^verbatim>\<open>String(Object.create(null))\<close>
  throws.
\<close>

definition sample_runtime :: "int runtime" where
  "sample_runtime =
     \<lparr>ethers_isAddress = (\<lambda>s. startsWith s ''0x'' \<and> length s = 42),
      ethers_formatEther = (\<lambda>w. ''0.0''),
      numberToString = (\<lambda>n. ''1''),
      quotientToString = (\<lambda>a b. ''90''),
      dateToLocaleString = (\<lambda>d. ''1/1/2030, 12:00:00 AM''),
      secondsToLocaleString = (\<lambda>d. ''1/1/2030, 12:00:00 AM''),
      number_literal = (\<lambda>n. n),
      number_times = (\<lambda>a b. a * b),
      number_text = (\<lambda>n. ''1'')\<rparr>"

definition sample_upstream :: "address_record option \<Rightarrow> int upstream" where
  "sample_upstream addr =
     \<lparr>pc_getAddressRecord = (\<lambda>name coin. Inr addr),
      pc_getName = (\<lambda>address. Inr None),
      pc_getTextRecord = (\<lambda>name key. Inr None),
      pc_getAvailable = (\<lambda>name. Inr False),
      pc_getOwner = (\<lambda>name. Inr None),
      pc_getExpiry = (\<lambda>name. Inr None),
      pc_getSubnames = (\<lambda>name. Inr None),
      pc_getNameHistory = (\<lambda>name. Inr None),
      pc_getPrice = (\<lambda>name duration. Inr \<lparr>base = 0, premium = 0\<rparr>),
      jn_getRecords = (\<lambda>name. Inr \<lparr>rc_resolverAddress = ''0x0'', rc_texts = None,
                                    rc_coins = None, rc_contentHash = None\<rparr>)\<rparr>"


definition conversion_TypeError :: js_thrown where
  "conversion_TypeError = Thrown_Error ''TypeError'' ''Cannot convert object to primitive value''"

section \<open>Facts about the string primitives\<close>

lemma startsWith_iff: "startsWith s p \<longleftrightarrow> (\<exists>q. s = p @ q)"
  by (induction s p rule: startsWith.induct) auto

lemma includes_iff: "includesStr s sub \<longleftrightarrow> (\<exists>p q. s = p @ sub @ q)"
proof (induction s)
  case Nil
  show ?case by auto
next
  case (Cons c cs)
  show ?case
  proof
    assume "includesStr (c # cs) sub"
    then consider "startsWith (c # cs) sub" | "includesStr cs sub" by auto
    then show "\<exists>p q. c # cs = p @ sub @ q"
    proof cases
      case 1
      then obtain q where "c # cs = sub @ q" by (auto simp: startsWith_iff)
      then have "c # cs = [] @ sub @ q" by simp
      then show ?thesis by blast
    next
      case 2
      then obtain p q where "cs = p @ sub @ q" using Cons.IH by blast
      then have "c # cs = (c # p) @ sub @ q" by simp
      then show ?thesis by blast
    qed
  next
    assume "\<exists>p q. c # cs = p @ sub @ q"
    then obtain p q where pq: "c # cs = p @ sub @ q" by blast
    show "includesStr (c # cs) sub"
    proof (cases p)
      case Nil
      with pq have "startsWith (c # cs) sub" by (auto simp: startsWith_iff)
      then show ?thesis by simp
    next
      case (Cons a p')
      with pq have "cs = p' @ sub @ q" by simp
      then have "includesStr cs sub" using Cons.IH by blast
      then show ?thesis by simp
    qed
  qed
qed

lemma includes_char_iff: "includesStr s [c] \<longleftrightarrow> c \<in> set s"
  by (induction s) (auto simp: startsWith_iff)

lemma endsWith_iff: "endsWith s suf \<longleftrightarrow> (\<exists>p. s = p @ suf)"
proof -
  have "endsWith s suf \<longleftrightarrow> (\<exists>q. rev s = rev suf @ q)"
    by (simp add: endsWith_def startsWith_iff)
  also have "\<dots> \<longleftrightarrow> (\<exists>p. s = p @ suf)"
  proof
    assume "\<exists>q. rev s = rev suf @ q"
    then obtain q where "rev s = rev suf @ q" by blast
    then have "rev (rev s) = rev (rev suf @ q)" by simp
    then have "s = rev q @ suf" by simp
    then show "\<exists>p. s = p @ suf" by blast
  next
    assume "\<exists>p. s = p @ suf"
    then obtain p where "s = p @ suf" by blast
    then have "rev s = rev suf @ rev p" by simp
    then show "\<exists>q. rev s = rev suf @ q" by blast
  qed
  finally show ?thesis .
qed

lemma split_on_not_Nil: "split_on sep s \<noteq> []"
  by (induction s) (auto split: list.splits)

lemma length_split_on: "length (split_on sep s) = Suc (count_list s sep)"
  by (induction s) (auto split: list.splits simp: split_on_not_Nil)

lemma split_on_no_sep: "p \<in> set (split_on sep s) \<Longrightarrow> sep \<notin> set p"
  by (induction s arbitrary: p) (auto split: list.splits if_splits)

lemma join_with_Cons: "ps \<noteq> [] \<Longrightarrow> join_with sep (p # ps) = p @ sep # join_with sep ps"
  by (cases ps) auto

lemma join_split_on: "join_with sep (split_on sep s) = s"
proof (induction s)
  case Nil
  show ?case by simp
next
  case (Cons c cs)
  show ?case
  proof (cases "c = sep")
    case True
    then show ?thesis using Cons by (simp add: join_with_Cons split_on_not_Nil)
  next
    case False
    obtain w ws where w: "split_on sep cs = w # ws"
      using split_on_not_Nil [of sep cs] by (cases "split_on sep cs") auto
    have "join_with sep ((c # w) # ws) = c # join_with sep (w # ws)"
      by (cases ws) auto
    then show ?thesis using False w Cons by simp
  qed
qed

lemma trimStart_decomp:
  "\<exists>l. s = l @ trimStart s \<and> (\<forall>c \<in> set l. isWhiteSpace c)"
proof -
  have "s = takeWhile isWhiteSpace s @ trimStart s" by (simp add: trimStart_def)
  moreover have "\<forall>c \<in> set (takeWhile isWhiteSpace s). isWhiteSpace c"
    by (auto dest: set_takeWhileD)
  ultimately show ?thesis by blast
qed

lemma trimEnd_decomp:
  "\<exists>r. s = trimEnd s @ r \<and> (\<forall>c \<in> set r. isWhiteSpace c)"
proof -
  have "rev (takeWhile isWhiteSpace (rev s) @ dropWhile isWhiteSpace (rev s)) = s"
    by simp
  then have "rev (dropWhile isWhiteSpace (rev s)) @ rev (takeWhile isWhiteSpace (rev s)) = s"
    by (simp only: rev_append)
  then have "s = trimEnd s @ rev (takeWhile isWhiteSpace (rev s))"
    by (simp only: trimEnd_def)
  moreover have "\<forall>c \<in> set (rev (takeWhile isWhiteSpace (rev s))). isWhiteSpace c"
    by (auto dest: set_takeWhileD)
  ultimately show ?thesis by blast
qed

lemma trim_decomp:
  "\<exists>l r. s = l @ trim s @ r \<and> (\<forall>c \<in> set l. isWhiteSpace c) \<and> (\<forall>c \<in> set r. isWhiteSpace c)"
proof -
  obtain l where l: "s = l @ trimStart s" "\<forall>c \<in> set l. isWhiteSpace c"
    using trimStart_decomp by blast
  obtain r where r: "trimStart s = trim s @ r" "\<forall>c \<in> set r. isWhiteSpace c"
    using trimEnd_decomp [of "trimStart s"] by (auto simp: trim_def)
  have "s = l @ trim s @ r" using l(1) r(1) by simp
  then show ?thesis using l(2) r(2) by blast
qed

lemma trimStart_hd: "trimStart s \<noteq> [] \<Longrightarrow> \<not> isWhiteSpace (hd (trimStart s))"
  unfolding trimStart_def by (rule hd_dropWhile)

lemma trimEnd_last: "trimEnd s \<noteq> [] \<Longrightarrow> \<not> isWhiteSpace (last (trimEnd s))"
  unfolding trimEnd_def using hd_dropWhile [of isWhiteSpace "rev s"]
  by (simp add: last_rev)

lemma trimEnd_hd: "trimEnd s \<noteq> [] \<Longrightarrow> hd (trimEnd s) = hd s"
proof -
  assume ne: "trimEnd s \<noteq> []"
  obtain r where "s = trimEnd s @ r" using trimEnd_decomp by blast
  then have "hd s = hd (trimEnd s @ r)" by simp
  then show ?thesis using ne by simp
qed

lemma trim_ends:
  "trim s \<noteq> [] \<Longrightarrow> \<not> isWhiteSpace (hd (trim s)) \<and> \<not> isWhiteSpace (last (trim s))"
proof -
  assume ne: "trim s \<noteq> []"
  then have ne': "trimStart s \<noteq> []" by (auto simp: trim_def trimEnd_def)
  have "hd (trim s) = hd (trimStart s)" using ne by (simp add: trim_def trimEnd_hd)
  then show ?thesis using ne ne' trimStart_hd trimEnd_last by (simp add: trim_def)
qed

lemma distinct_DEFAULT_PROVIDERS: "distinct DEFAULT_PROVIDERS"
  by (simp add: DEFAULT_PROVIDERS_def)

lemma spec_contains_iff: "spec_contains s sub \<longleftrightarrow> includesStr s sub"
  by (simp add: spec_contains_def includes_iff)

lemma normalizeName_vitalik: "normalizeName ''vitalik'' = ''vitalik.eth''"
  by (simp add: normalizeName_def endsWith_def)

lemma normalizeName_suffix: "endsWith (normalizeName name) ''.eth''"
  by (auto simp: normalizeName_def endsWith_iff)

section \<open>Facts about the provider list\<close>

lemma getProviderUrls_comma:
  "CHR '','' \<in> set s \<Longrightarrow> getProviderUrls (Some s) = map trim (split_on CHR '','' s)"
  by (auto simp: getProviderUrls_def truthy_def includes_char_iff)

lemma getProviderUrls_single:
  "s \<noteq> [] \<Longrightarrow> CHR '','' \<notin> set s \<Longrightarrow>
     getProviderUrls (Some s) = s # filter (\<lambda>url. url \<noteq> s) DEFAULT_PROVIDERS"
  by (simp add: getProviderUrls_def truthy_def includes_char_iff)

lemma filter_neq_removeAll: "filter (\<lambda>url. url \<noteq> s) xs = removeAll s xs"
  by (induction xs) auto

section \<open>Facts about runs\<close>

lemma calls_ret: "calls (ret v) = []"
  by (simp add: calls_def ret_def)

lemma calls_compute: "calls (compute r) = []"
  by (simp add: calls_def compute_def)

lemma calls_await: "calls (await c r) = [c]"
  by (simp add: calls_def await_def)

lemma calls_andThen:
  "calls (andThen m f) = (case snd m of Inl e \<Rightarrow> calls m | Inr v \<Rightarrow> calls m @ calls (f v))"
  by (cases m) (auto simp: calls_def andThen_def split: sum.splits prod.splits)

lemma calls_try_catch:
  "calls (try_catch m h) = (case snd m of Inl e \<Rightarrow> calls m @ calls (h e) | Inr v \<Rightarrow> calls m)"
  by (cases m) (auto simp: calls_def try_catch_def split: sum.splits prod.splits)

lemma snd_await: "snd (await c r) = r"
  by (simp add: await_def)

lemma snd_ret: "snd (ret v) = Inr v"
  by (simp add: ret_def)

lemma snd_compute: "snd (compute r) = r"
  by (simp add: compute_def)

lemma snd_andThen:
  "snd (andThen m f) = (case snd m of Inl e \<Rightarrow> Inl e | Inr v \<Rightarrow> snd (f v))"
  by (cases m) (auto simp: andThen_def split: sum.splits prod.splits)

lemmas run_simps =
  calls_ret calls_compute calls_await calls_andThen calls_try_catch
  snd_await snd_ret snd_compute snd_andThen




text \<open>The classifier returns a message for every value that \<^verbatim>\<open>String\<close> converts, and
  for every \<^verbatim>\<open>Error\<close>.\<close>

lemma stringifiable_Error: "stringifiable (Thrown_Error n m)"
  by (simp add: stringifiable_def)












text \<open>Which names reach the upstream clients. Six of the seven handlers that take a name
  pass the normalized name in every call; \<^const>\<open>getAllRecords\<close> does so in its first two
  calls and passes the name as given to \<^verbatim>\<open>getExpiry\<close>.\<close>

lemma other_handlers_pass_normalized_name:
  "\<forall>c \<in> set (calls (resolveName up name)). upcall_name c = normalizeName name"
  "\<forall>c \<in> set (calls (getTextRecord up name key)). upcall_name c = normalizeName name"
  "\<forall>c \<in> set (calls (checkAvailability up name)). upcall_name c = normalizeName name"
  "\<forall>c \<in> set (calls (getSubdomains up name)). upcall_name c = normalizeName name"
  "\<forall>c \<in> set (calls (getNameHistory rt up name)). upcall_name c = normalizeName name"
  "\<forall>c \<in> set (calls (getRegistrationPrice rt up name d)). upcall_name c = normalizeName name"
  by (auto simp: resolveName_def getTextRecord_def checkAvailability_def getSubdomains_def
        getNameHistory_def getRegistrationPrice_def Let_def run_simps
        split: sum.splits option.splits if_splits)

lemma getAllRecords_calls:
  "calls (getAllRecords rt up name) =
     (case jn_getRecords up (normalizeName name) of
        Inl e \<Rightarrow> [Call_getRecords (normalizeName name)]
      | Inr records \<Rightarrow>
          (case pc_getOwner up (normalizeName name) of
             Inl e \<Rightarrow> [Call_getRecords (normalizeName name), Call_getOwner (normalizeName name)]
           | Inr owner \<Rightarrow>
               [Call_getRecords (normalizeName name), Call_getOwner (normalizeName name),
                Call_getExpiry name]))"
  by (auto simp: getAllRecords_def Let_def run_simps split: sum.splits)

section \<open>The claims\<close>






text \<open>
  Claim C3. For every override that contains a comma, \<^verbatim>\<open>getProviderUrls\<close> returns the
  pieces between the commas, each trimmed, in the order of the override and with no default
  appended: the pieces joined by commas are the override and none contains a comma, there
  is one more piece than there are commas, and each returned element is its piece without
  the white space before and after it.
\<close>

theorem getProviderUrls_comma_list:
  assumes "CHR '','' \<in> set s"
  shows "getProviderUrls (Some s) = map trim (split_on CHR '','' s) \<and>
         join_with CHR '','' (split_on CHR '','' s) = s \<and>
         (\<forall>p \<in> set (split_on CHR '','' s). CHR '','' \<notin> set p) \<and>
         length (getProviderUrls (Some s)) = Suc (count_list s CHR '','') \<and>
         (\<forall>i < length (getProviderUrls (Some s)).
            \<exists>l r. split_on CHR '','' s ! i = l @ getProviderUrls (Some s) ! i @ r \<and>
                  (\<forall>c \<in> set l. isWhiteSpace c) \<and> (\<forall>c \<in> set r. isWhiteSpace c) \<and>
                  (getProviderUrls (Some s) ! i \<noteq> [] \<longrightarrow>
                     \<not> isWhiteSpace (hd (getProviderUrls (Some s) ! i)) \<and>
                     \<not> isWhiteSpace (last (getProviderUrls (Some s) ! i))))"
proof -
  let ?ps = "split_on CHR '','' s"
  have eq: "getProviderUrls (Some s) = map trim ?ps"
    using assms by (rule getProviderUrls_comma)
  have len: "length (getProviderUrls (Some s)) = Suc (count_list s CHR '','')"
    by (simp add: eq length_split_on)
  have nosep: "\<forall>p \<in> set ?ps. CHR '','' \<notin> set p"
    using split_on_no_sep by blast
  have pieces: "\<forall>i < length (getProviderUrls (Some s)).
            \<exists>l r. ?ps ! i = l @ getProviderUrls (Some s) ! i @ r \<and>
                  (\<forall>c \<in> set l. isWhiteSpace c) \<and> (\<forall>c \<in> set r. isWhiteSpace c) \<and>
                  (getProviderUrls (Some s) ! i \<noteq> [] \<longrightarrow>
                     \<not> isWhiteSpace (hd (getProviderUrls (Some s) ! i)) \<and>
                     \<not> isWhiteSpace (last (getProviderUrls (Some s) ! i)))"
  proof (intro allI impI)
    fix i assume "i < length (getProviderUrls (Some s))"
    then have i: "i < length ?ps" by (simp add: eq)
    then have nth: "getProviderUrls (Some s) ! i = trim (?ps ! i)" by (simp add: eq)
    obtain l r where "?ps ! i = l @ trim (?ps ! i) @ r"
      "\<forall>c \<in> set l. isWhiteSpace c" "\<forall>c \<in> set r. isWhiteSpace c"
      using trim_decomp [of "?ps ! i"] by blast
    then show "\<exists>l r. ?ps ! i = l @ getProviderUrls (Some s) ! i @ r \<and>
                  (\<forall>c \<in> set l. isWhiteSpace c) \<and> (\<forall>c \<in> set r. isWhiteSpace c) \<and>
                  (getProviderUrls (Some s) ! i \<noteq> [] \<longrightarrow>
                     \<not> isWhiteSpace (hd (getProviderUrls (Some s) ! i)) \<and>
                     \<not> isWhiteSpace (last (getProviderUrls (Some s) ! i)))"
      unfolding nth using trim_ends [of "?ps ! i"] by blast
  qed
  show ?thesis using eq len nosep pieces join_split_on [of "CHR '',''" s] by blast
qed

theorem getProviderUrls_comma_list_witness:
  "CHR '','' \<in> set '' https://a.example ,https://eth.drpc.org'' \<and>
   getProviderUrls (Some '' https://a.example ,https://eth.drpc.org'')
     = [''https://a.example'', ''https://eth.drpc.org''] \<and>
   length (getProviderUrls (Some '' https://a.example ,https://eth.drpc.org'')) = 2"
  using getProviderUrls_comma_list [of "'' https://a.example ,https://eth.drpc.org''"]
  by (simp add: trim_def trimStart_def trimEnd_def isWhiteSpace_def)

text \<open>
  Claim C4. For every override that is not empty and contains no comma,
  \<^verbatim>\<open>getProviderUrls\<close> returns the override first and then the defaults in their order
  without the elements equal to the override; for an unset override it returns the four
  built-in defaults unchanged.
\<close>

theorem getProviderUrls_single_override:
  "(s \<noteq> [] \<and> CHR '','' \<notin> set s \<longrightarrow>
      getProviderUrls (Some s) = s # removeAll s DEFAULT_PROVIDERS \<and>
      hd (getProviderUrls (Some s)) = s \<and>
      s \<notin> set (tl (getProviderUrls (Some s)))) \<and>
   getProviderUrls None =
     [''https://eth.drpc.org'', ''https://eth.llamarpc.com'',
      ''https://ethereum.publicnode.com'', ''https://rpc.ankr.com/eth''] \<and>
   getProviderUrls None = DEFAULT_PROVIDERS \<and> length (getProviderUrls None) = 4"
proof -
  have a: "s \<noteq> [] \<and> CHR '','' \<notin> set s \<longrightarrow>
      getProviderUrls (Some s) = s # removeAll s DEFAULT_PROVIDERS \<and>
      hd (getProviderUrls (Some s)) = s \<and>
      s \<notin> set (tl (getProviderUrls (Some s)))"
    by (simp add: getProviderUrls_single filter_neq_removeAll)
  have b: "getProviderUrls None = DEFAULT_PROVIDERS"
    by (simp add: getProviderUrls_def)
  have c: "getProviderUrls None =
     [''https://eth.drpc.org'', ''https://eth.llamarpc.com'',
      ''https://ethereum.publicnode.com'', ''https://rpc.ankr.com/eth'']"
    by (simp add: b DEFAULT_PROVIDERS_def)
  have d: "length (getProviderUrls None) = 4" by (simp add: c)
  from a b c d show ?thesis by (intro conjI)
qed

theorem getProviderUrls_single_override_witness:
  "''https://eth.llamarpc.com'' \<noteq> [] \<and> CHR '','' \<notin> set ''https://eth.llamarpc.com'' \<and>
   getProviderUrls (Some ''https://eth.llamarpc.com'') =
     [''https://eth.llamarpc.com'', ''https://eth.drpc.org'',
      ''https://ethereum.publicnode.com'', ''https://rpc.ankr.com/eth''] \<and>
   length (getProviderUrls None) = 4"
  using getProviderUrls_single_override [of "''https://eth.llamarpc.com''"]
  by (simp add: DEFAULT_PROVIDERS_def)

text \<open>
  Claim C5, as amended. For every configuration input the list that \<^verbatim>\<open>getProviderUrls\<close>
  returns is not empty; when the override is unset or contains no comma the list has no
  duplicate.
\<close>

theorem getProviderUrls_nonempty_distinct:
  "getProviderUrls env \<noteq> [] \<and>
   ((\<forall>s. env = Some s \<longrightarrow> CHR '','' \<notin> set s) \<longrightarrow> distinct (getProviderUrls env))"
proof
  show "getProviderUrls env \<noteq> []"
    by (auto simp: getProviderUrls_def split_on_not_Nil DEFAULT_PROVIDERS_def
          split: option.splits)
next
  show "(\<forall>s. env = Some s \<longrightarrow> CHR '','' \<notin> set s) \<longrightarrow> distinct (getProviderUrls env)"
  proof
    assume nc: "\<forall>s. env = Some s \<longrightarrow> CHR '','' \<notin> set s"
    show "distinct (getProviderUrls env)"
    proof (cases env)
      case None
      then show ?thesis by (simp add: getProviderUrls_def distinct_DEFAULT_PROVIDERS)
    next
      case (Some s)
      with nc have c: "CHR '','' \<notin> set s" by simp
      show ?thesis
      proof (cases "s = []")
        case True
        with Some show ?thesis
          by (simp add: getProviderUrls_def truthy_def distinct_DEFAULT_PROVIDERS)
      next
        case False
        with Some c show ?thesis
          by (simp add: getProviderUrls_single distinct_DEFAULT_PROVIDERS)
      qed
    qed
  qed
qed

theorem getProviderUrls_nonempty_distinct_witness:
  "CHR '','' \<notin> set ''https://eth.llamarpc.com'' \<and>
   getProviderUrls (Some ''https://eth.llamarpc.com'') \<noteq> [] \<and>
   distinct (getProviderUrls (Some ''https://eth.llamarpc.com'')) \<and>
   distinct (getProviderUrls None)"
  using getProviderUrls_nonempty_distinct [of "Some ''https://eth.llamarpc.com''"]
        getProviderUrls_nonempty_distinct [of None]
  by simp

text \<open>
  Claim C5 as it was stated fails for a comma-separated override that names one URL twice:
  the list is returned as split and trimmed, duplicates included.
\<close>

theorem getProviderUrls_duplicates_counterexample:
  "getProviderUrls (Some ''https://a.example,https://a.example'')
     = [''https://a.example'', ''https://a.example''] \<and>
   \<not> distinct (getProviderUrls (Some ''https://a.example,https://a.example''))"
  by (simp add: getProviderUrls_def truthy_def trim_def trimStart_def trimEnd_def
        isWhiteSpace_def)

text \<open>
  Claim C6, at the input where the code departs from it. The name \<^verbatim>\<open>vitalik\<close> does not
  end with \<^verbatim>\<open>.eth\<close>, and \<^verbatim>\<open>getAllRecords\<close>, against an upstream that answers every
  call, hands \<^verbatim>\<open>vitalik.eth\<close> to \<^verbatim>\<open>getRecords\<close> and \<^verbatim>\<open>getOwner\<close> but the name as
  given, \<^verbatim>\<open>vitalik\<close>, to \<^verbatim>\<open>getExpiry\<close>.
\<close>

theorem getAllRecords_expiry_raw_name:
  "\<not> endsWith ''vitalik'' ''.eth'' \<and>
   calls (getAllRecords sample_runtime (sample_upstream None) ''vitalik'')
     = [Call_getRecords ''vitalik.eth'', Call_getOwner ''vitalik.eth'', Call_getExpiry ''vitalik'']"
  by (simp add: getAllRecords_calls sample_upstream_def normalizeName_def endsWith_def)

text \<open>
  Claim C7. For every index and provider list, \<^verbatim>\<open>retry\<close> rejects exactly when
  \<open>currentIndex \<ge> providerUrls.length - 1\<close>; it then rejects with the error "All providers
  failed" and leaves the closure, the held client included, as it was. Otherwise it builds
  a new client on \<open>providerUrls[currentIndex + 1]\<close>, stores it as the held client and
  returns it. A call without an argument is the call with index 0.
\<close>

theorem retry_rotation:
  "(isl (fst (retry init st (Some currentIndex))) \<longleftrightarrow>
      currentIndex \<ge> int (length (providerUrls st)) - 1) \<and>
   (currentIndex \<ge> int (length (providerUrls st)) - 1 \<longrightarrow>
      retry init st (Some currentIndex)
        = (Inl (Thrown_Error ''Error'' ''All providers failed''), st)) \<and>
   (currentIndex < int (length (providerUrls st)) - 1 \<longrightarrow>
      retry init st (Some currentIndex) =
        (Inr (init [\<lparr>chainId = 1,
                     providerUrl = js_index (providerUrls st) (currentIndex + 1)\<rparr>]),
         st\<lparr>client := init [\<lparr>chainId = 1,
                     providerUrl = js_index (providerUrls st) (currentIndex + 1)\<rparr>]\<rparr>) \<and>
      (0 \<le> currentIndex \<longrightarrow>
         js_index (providerUrls st) (currentIndex + 1)
           = Some (providerUrls st ! nat (currentIndex + 1)))) \<and>
   retry init st None = retry init st (Some 0)"
  by (auto simp: retry_def Let_def js_index_def)

text \<open>The claim on the closure that \<^verbatim>\<open>createJustaNameClient\<close> builds from the four
  defaults, a client being the list of networks it was initialised with: index 3 is
  exhausted, index 0 rotates from the first default to the second.\<close>

theorem retry_rotation_witness:
  "retry (\<lambda>networks. networks) (snd (createJustaNameClient (\<lambda>networks. networks) None))
       (Some 3)
     = (Inl (Thrown_Error ''Error'' ''All providers failed''),
        snd (createJustaNameClient (\<lambda>networks. networks) None)) \<and>
   fst (retry (\<lambda>networks. networks) (snd (createJustaNameClient (\<lambda>networks. networks) None))
          (Some 0))
     = Inr [\<lparr>chainId = 1, providerUrl = Some ''https://eth.llamarpc.com''\<rparr>] \<and>
   client (snd (retry (\<lambda>networks. networks)
                  (snd (createJustaNameClient (\<lambda>networks. networks) None)) (Some 0)))
     = [\<lparr>chainId = 1, providerUrl = Some ''https://eth.llamarpc.com''\<rparr>] \<and>
   client (snd (createJustaNameClient (\<lambda>networks. networks) None))
     = [\<lparr>chainId = 1, providerUrl = Some ''https://eth.drpc.org''\<rparr>]"
  using retry_rotation [of "\<lambda>networks. networks"
                          "snd (createJustaNameClient (\<lambda>networks. networks) None)" 3]
        retry_rotation [of "\<lambda>networks. networks"
                          "snd (createJustaNameClient (\<lambda>networks. networks) None)" 0]
  by (simp add: createJustaNameClient_def getProviderUrls_def DEFAULT_PROVIDERS_def
        js_index_def Let_def)

text \<open>
  Claim C8. \<^verbatim>\<open>resolveName\<close> for \<^verbatim>\<open>vitalik\<close> makes one upstream call, the address record of
  \<^verbatim>\<open>vitalik.eth\<close> for the coin \<^verbatim>\<open>ETH\<close>. When the upstream returns no record the envelope
  has \<open>isError = false\<close> and the text "Could not resolve vitalik.eth to an address."; when
  it returns a record whose value is \<^verbatim>\<open>0xabc\<close> the envelope has \<open>isError = false\<close> and the
  text "The address for vitalik.eth is 0xabc".
\<close>

theorem resolveName_vitalik:
  "normalizeName ''vitalik'' = ''vitalik.eth'' \<and>
   calls (resolveName up ''vitalik'') = [Call_getAddressRecord ''vitalik.eth'' ''ETH''] \<and>
   (pc_getAddressRecord up ''vitalik.eth'' ''ETH'' = Inr None \<longrightarrow>
      snd (resolveName up ''vitalik'') =
        Inr \<lparr>content = [\<lparr>tc_type = ''text'',
                          tc_text = ''Could not resolve vitalik.eth to an address.''\<rparr>],
             isError = False\<rparr>) \<and>
   (\<forall>r. pc_getAddressRecord up ''vitalik.eth'' ''ETH'' = Inr (Some r) \<and> ar_value r = ''0xabc''
      \<longrightarrow>
      snd (resolveName up ''vitalik'') =
        Inr \<lparr>content = [\<lparr>tc_type = ''text'',
                          tc_text = ''The address for vitalik.eth is 0xabc''\<rparr>],
             isError = False\<rparr>)"
proof -
  have n: "normalizeName ''vitalik'' = ''vitalik.eth''" by (rule normalizeName_vitalik)
  have c: "calls (resolveName up ''vitalik'') = [Call_getAddressRecord ''vitalik.eth'' ''ETH'']"
    by (auto simp: resolveName_def n Let_def run_simps split: sum.splits option.splits)
  have a: "pc_getAddressRecord up ''vitalik.eth'' ''ETH'' = Inr None \<longrightarrow>
      snd (resolveName up ''vitalik'') =
        Inr \<lparr>content = [\<lparr>tc_type = ''text'',
                          tc_text = ''Could not resolve vitalik.eth to an address.''\<rparr>],
             isError = False\<rparr>"
    by (simp add: resolveName_def n try_catch_def andThen_def await_def ret_def textResponse_def)
  have b: "\<forall>r. pc_getAddressRecord up ''vitalik.eth'' ''ETH'' = Inr (Some r) \<and>
               ar_value r = ''0xabc'' \<longrightarrow>
      snd (resolveName up ''vitalik'') =
        Inr \<lparr>content = [\<lparr>tc_type = ''text'',
                          tc_text = ''The address for vitalik.eth is 0xabc''\<rparr>],
             isError = False\<rparr>"
    by (simp add: resolveName_def n try_catch_def andThen_def await_def ret_def textResponse_def)
  from n c a b show ?thesis by (intro conjI)
qed

theorem resolveName_vitalik_witness:
  "pc_getAddressRecord (sample_upstream None) ''vitalik.eth'' ''ETH'' = Inr None \<and>
   resolveName (sample_upstream None) ''vitalik'' =
     ([(Call_getAddressRecord ''vitalik.eth'' ''ETH'', Returned)],
      Inr \<lparr>content = [\<lparr>tc_type = ''text'',
                        tc_text = ''Could not resolve vitalik.eth to an address.''\<rparr>],
           isError = False\<rparr>) \<and>
   pc_getAddressRecord
       (sample_upstream (Some \<lparr>ar_id = 60, ar_name = ''ETH'', ar_value = ''0xabc''\<rparr>))
       ''vitalik.eth'' ''ETH''
     = Inr (Some \<lparr>ar_id = 60, ar_name = ''ETH'', ar_value = ''0xabc''\<rparr>) \<and>
   snd (resolveName
          (sample_upstream (Some \<lparr>ar_id = 60, ar_name = ''ETH'', ar_value = ''0xabc''\<rparr>))
          ''vitalik'') =
     Inr \<lparr>content = [\<lparr>tc_type = ''text'', tc_text = ''The address for vitalik.eth is 0xabc''\<rparr>],
          isError = False\<rparr>"
  using resolveName_vitalik [of "sample_upstream None"]
        resolveName_vitalik
          [of "sample_upstream (Some \<lparr>ar_id = 60, ar_name = ''ETH'', ar_value = ''0xabc''\<rparr>)"]
  by (simp add: sample_upstream_def resolveName_def try_catch_def andThen_def await_def ret_def
        calls_def textResponse_def normalizeName_vitalik)

text \<open>
  Claim C9. For every input that the address check rejects, \<^verbatim>\<open>reverseLookup\<close> makes no
  upstream call and returns the envelope with \<open>isError = true\<close> and the text "Invalid
  Ethereum address: " followed by the input; for an input that the check accepts it makes
  the one call \<^verbatim>\<open>getName\<close>, so an upstream call is made only for valid addresses.
\<close>

theorem reverseLookup_invalid_address:
  "(\<not> ethers_isAddress rt address \<longrightarrow>
      reverseLookup rt up address =
        ([], Inr \<lparr>content = [\<lparr>tc_type = ''text'',
                              tc_text = ''Invalid Ethereum address: '' @ address\<rparr>],
                  isError = True\<rparr>)) \<and>
   (ethers_isAddress rt address \<longrightarrow>
      calls (reverseLookup rt up address) = [Call_getName address]) \<and>
   (calls (reverseLookup rt up address) \<noteq> [] \<longrightarrow> ethers_isAddress rt address)"
proof -
  have a: "\<not> ethers_isAddress rt address \<longrightarrow>
      reverseLookup rt up address =
        ([], Inr \<lparr>content = [\<lparr>tc_type = ''text'',
                              tc_text = ''Invalid Ethereum address: '' @ address\<rparr>],
                  isError = True\<rparr>)"
    by (simp add: reverseLookup_def try_catch_def ret_def textResponse_def)
  have b: "ethers_isAddress rt address \<longrightarrow>
      calls (reverseLookup rt up address) = [Call_getName address]"
    by (auto simp: reverseLookup_def Let_def run_simps split: sum.splits option.splits)
  have c: "calls (reverseLookup rt up address) \<noteq> [] \<longrightarrow> ethers_isAddress rt address"
    using a by (auto simp: calls_def)
  from a b c show ?thesis by (intro conjI)
qed

theorem reverseLookup_invalid_address_witness:
  "\<not> ethers_isAddress sample_runtime ''not-an-address'' \<and>
   reverseLookup sample_runtime (sample_upstream None) ''not-an-address'' =
     ([], Inr \<lparr>content = [\<lparr>tc_type = ''text'',
                           tc_text = ''Invalid Ethereum address: not-an-address''\<rparr>],
               isError = True\<rparr>) \<and>
   ethers_isAddress sample_runtime ''0xd8dA6BF26964aF9D7eEd9e03E53415D37aA96045'' \<and>
   calls (reverseLookup sample_runtime (sample_upstream None)
            ''0xd8dA6BF26964aF9D7eEd9e03E53415D37aA96045'')
     = [Call_getName ''0xd8dA6BF26964aF9D7eEd9e03E53415D37aA96045'']"
  using reverseLookup_invalid_address
          [of sample_runtime "''not-an-address''" "sample_upstream None"]
        reverseLookup_invalid_address
          [of sample_runtime "''0xd8dA6BF26964aF9D7eEd9e03E53415D37aA96045''"
              "sample_upstream None"]
  by (simp add: sample_runtime_def)

text \<open>
  Claim C10, as amended. For every thrown value that is not an instance of \<^verbatim>\<open>Error\<close> and
  that \<^verbatim>\<open>String\<close> converts to a text, the classifier returns "Error during ", the
  operation label, ": " and that text, whatever the text contains: the branches that search
  the message are reached for \<^verbatim>\<open>Error\<close> instances only.
\<close>

theorem handleEnsError_non_Error:
  "\<not> instanceof_Error error \<Longrightarrow> js_String error = Inr str \<Longrightarrow>
     handleEnsError error operation = Inr (''Error during '' @ operation @ '': '' @ str)"
  by (cases error) (simp_all add: handleEnsError_def)

theorem handleEnsError_non_Error_witness:
  "\<not> instanceof_Error (Thrown_Other ''network timeout: invalid ENS parameter'') \<and>
   js_String (Thrown_Other ''network timeout: invalid ENS parameter'')
     = Inr ''network timeout: invalid ENS parameter'' \<and>
   spec_contains ''network timeout: invalid ENS parameter'' ''timeout'' \<and>
   spec_contains ''network timeout: invalid ENS parameter'' ''ENS'' \<and>
   handleEnsError (Thrown_Other ''network timeout: invalid ENS parameter'') ''name resolution''
     = Inr ''Error during name resolution: network timeout: invalid ENS parameter''"
  using handleEnsError_non_Error
    [of "Thrown_Other ''network timeout: invalid ENS parameter''"
        "''network timeout: invalid ENS parameter''" "''name resolution''"]
  by (simp add: spec_contains_iff)

text \<open>
  Claim C10 as it was stated fails at a value that is not an \<^verbatim>\<open>Error\<close> and that
  \<^verbatim>\<open>String\<close> cannot convert, such as \<^verbatim>\<open>Object.create(null)\<close>: the classifier returns no
  message and throws the \<^verbatim>\<open>TypeError\<close> of the conversion.
\<close>

theorem handleEnsError_unconvertible_counterexample:
  "\<not> instanceof_Error (Thrown_Unconvertible conversion_TypeError) \<and>
   js_String (Thrown_Unconvertible conversion_TypeError) = Inl conversion_TypeError \<and>
   handleEnsError (Thrown_Unconvertible conversion_TypeError) ''name resolution''
     = Inl conversion_TypeError"
  by (simp add: handleEnsError_def)


end
